theory Spec2Isabelle
  imports Main "HOL-Library.Word" "HOL-Library.Signed_Division"
begin

section \<open>Syntax tree\<close>

text \<open>
  The evaluator's \<^verbatim>\<open>Eval\<close> takes an \<^verbatim>\<open>ast.Node\<close> and switches on its dynamic type.
  The node types are one datatype, one constructor for every type the evaluator or the
  parser names, \<open>CallExpression\<close> for the node type the evaluator has no case for, and
  \<open>NilNode\<close> for Go's \<^verbatim>\<open>nil\<close> in a field of an interface type (the parser leaves
  \<^verbatim>\<open>LetStatement.Value\<close> unset, and \<^verbatim>\<open>IfExpression.Otherwise\<close> is tested against
  \<^verbatim>\<open>nil\<close>). The token every node keeps for printing is left out: no function below
  reads it. \<^verbatim>\<open>int64\<close> is a 64-bit word.
\<close>

type_synonym int64 = "64 word"

datatype node =
    Program "node list"
  | BlockStatement "node list"
  | ExpressionStatement node
  | ReturnStatement node
  | LetStatement string node
  | BooleanLiteral bool
  | IntegerLiteral int64
  | FunctionLiteral "string list" node
  | PrefixExpression string node
  | InfixExpression string node node
  | IfExpression node node node
  | Identifier string
  | CallExpression node "node list"
  | NilNode

section \<open>Runtime values\<close>

text \<open>
  An \<^verbatim>\<open>object.Object\<close> is an interface value: \<^verbatim>\<open>nil\<close> or a pointer to a struct.
  The evaluator compares such values with \<^verbatim>\<open>==\<close>, which compares the pointers, so the
  model keeps the identity of every object: \<open>NULL\<close>, \<open>TRUE\<close> and \<open>FALSE\<close> are the three
  package-level objects of the evaluator, and \<open>Alloc a c\<close> is an object created by a
  composite literal \<^verbatim>\<open>&object.T{...}\<close>, at address \<open>a\<close> with contents \<open>c\<close>. Objects are
  never written after their creation. A \<open>val\<close> is an interface value: \<open>None\<close> is \<^verbatim>\<open>nil\<close>.

  \<^verbatim>\<open>object.Error.Message\<close> is \<^verbatim>\<open>fmt.Sprintf(format, a...)\<close>; the model keeps the format
  and the arguments apart, since the text of the type names is declared in the object
  package. \<^verbatim>\<open>object.Function.Env\<close> is a pointer to the environment \<^verbatim>\<open>Eval\<close> was called
  with; nothing in the evaluator follows it, and the model leaves it out.
\<close>

datatype ObjectType =
  O_INTEGER | O_BOOLEAN | O_NULL | O_RETURN_VALUE | O_ERROR | O_FUNCTION

datatype arg = S string | T ObjectType

datatype obj = NULL | TRUE | FALSE | Alloc nat object
and object =
    Integer int64
  | Boolean bool
  | Null
  | ReturnValue "obj option"
  | Error string "arg list"
  | Function "string list" node

type_synonym val = "obj option"

fun Type_object :: "object \<Rightarrow> ObjectType" where
  "Type_object (Integer _) = O_INTEGER"
| "Type_object (Boolean _) = O_BOOLEAN"
| "Type_object Null = O_NULL"
| "Type_object (ReturnValue _) = O_RETURN_VALUE"
| "Type_object (Error _ _) = O_ERROR"
| "Type_object (Function _ _) = O_FUNCTION"

fun Type :: "obj \<Rightarrow> ObjectType" where
  "Type NULL = O_NULL"
| "Type TRUE = O_BOOLEAN"
| "Type FALSE = O_BOOLEAN"
| "Type (Alloc _ c) = Type_object c"

text \<open>
  Go's \<^verbatim>\<open>==\<close> on two interface values: the dynamic types are identical and the pointers
  are equal. \<^verbatim>\<open>nil\<close> equals only \<^verbatim>\<open>nil\<close>.
\<close>

fun same_obj :: "obj \<Rightarrow> obj \<Rightarrow> bool" where
  "same_obj (Alloc a c) (Alloc b d) = (a = b \<and> Type_object c = Type_object d)"
| "same_obj NULL y = (y = NULL)"
| "same_obj TRUE y = (y = TRUE)"
| "same_obj FALSE y = (y = FALSE)"
| "same_obj (Alloc _ _) _ = False"

fun same :: "val \<Rightarrow> val \<Rightarrow> bool" where
  "same None None = True"
| "same (Some x) (Some y) = same_obj x y"
| "same _ _ = False"

section \<open>Environment\<close>

text \<open>
  Modelled from the spec: \<^verbatim>\<open>object.Environment\<close> with its \<^verbatim>\<open>Get\<close> and \<^verbatim>\<open>Set\<close>, which are
  not among the sources. An environment is a mapping from names to values with an
  optional enclosing environment; a lookup checks the local bindings first and then
  walks the chain outward; \<^verbatim>\<open>Set\<close> always writes into the local bindings.
\<close>

datatype Environment = Environment (store: "string \<rightharpoonup> val") (outer: "Environment option")

fun Get :: "Environment \<Rightarrow> string \<Rightarrow> val \<times> bool" where
  "Get (Environment st out) name =
     (case st name of
        Some v \<Rightarrow> (v, True)
      | None \<Rightarrow> (case out of None \<Rightarrow> (None, False) | Some e \<Rightarrow> Get e name))"

fun Set :: "Environment \<Rightarrow> string \<Rightarrow> val \<Rightarrow> Environment" where
  "Set (Environment st out) name v = Environment (st(name \<mapsto> v)) out"

section \<open>Evaluator\<close>

text \<open>
  The state the evaluator works on: the environment passed to \<^verbatim>\<open>Eval\<close>, which
  \<^verbatim>\<open>env.Set\<close> updates in place, and the next free address of the allocator. A call
  either panics or returns a value and the state it leaves.
\<close>

record world =
  env :: Environment
  next_addr :: nat

datatype panic = NilDereference | DivideByZero | TypeAssertion

type_synonym 'a result = "panic + ('a \<times> world)"

definition alloc :: "object \<Rightarrow> world \<Rightarrow> obj \<times> world" where
  "alloc c w = (Alloc (next_addr w) c, w\<lparr>next_addr := Suc (next_addr w)\<rparr>)"

definition ERR_PREFIX_UNKNOWN :: string where
  "ERR_PREFIX_UNKNOWN = ''unknown operator: %s%s''"

definition ERR_INFIX_UNKNOWN :: string where
  "ERR_INFIX_UNKNOWN = ''unknown operator: %s %s %s''"

definition ERR_INFIX_MISMATCH :: string where
  "ERR_INFIX_MISMATCH = ''type mismatch: %s %s %s''"

definition ERR_IDENTIFIER_UNKNOWN :: string where
  "ERR_IDENTIFIER_UNKNOWN = ''unknown identifier: %s''"

definition FALSY_VALUES :: "obj list" where
  "FALSY_VALUES = [NULL, FALSE]"

fun isTruthy_loop :: "obj list \<Rightarrow> val \<Rightarrow> bool" where
  "isTruthy_loop [] ob = True"
| "isTruthy_loop (falsyVal # rest) ob =
     (if same (Some falsyVal) ob then False else isTruthy_loop rest ob)"

definition isTruthy :: "val \<Rightarrow> bool" where
  "isTruthy ob = isTruthy_loop FALSY_VALUES ob"

definition newError :: "string \<Rightarrow> arg list \<Rightarrow> world \<Rightarrow> val result" where
  "newError format a w = (let (e, w') = alloc (Error format a) w in Inr (Some e, w'))"

fun isError :: "val \<Rightarrow> bool" where
  "isError (Some ob) = (Type ob = O_ERROR)"
| "isError None = False"

definition nativeBooleanToObject :: "bool \<Rightarrow> obj" where
  "nativeBooleanToObject input = (if input then TRUE else FALSE)"

definition evalBangOperatorExpression :: "val \<Rightarrow> val" where
  "evalBangOperatorExpression operand = (if isTruthy operand then Some FALSE else Some TRUE)"

text \<open>
  \<^verbatim>\<open>operand.Type()\<close> on a \<^verbatim>\<open>nil\<close> interface value is a nil dereference. A type
  assertion \<^verbatim>\<open>x.(*object.Integer)\<close> panics on an object of another type; the
  evaluator makes it only after it has checked the type.
\<close>

fun Integer_Value :: "obj \<Rightarrow> int64 option" where
  "Integer_Value (Alloc _ (Integer v)) = Some v"
| "Integer_Value _ = None"

fun evalDashOperatorExpression :: "val \<Rightarrow> world \<Rightarrow> val result" where
  "evalDashOperatorExpression None w = Inl NilDereference"
| "evalDashOperatorExpression (Some operand) w =
     (if Type operand \<noteq> O_INTEGER then
        newError ERR_PREFIX_UNKNOWN [S ''-'', T (Type operand)] w
      else
        (case Integer_Value operand of
           None \<Rightarrow> Inl TypeAssertion
         | Some v \<Rightarrow> (let (r, w') = alloc (Integer (- v)) w in Inr (Some r, w'))))"

definition evalPrefixExpression :: "string \<Rightarrow> val \<Rightarrow> world \<Rightarrow> val result" where
  "evalPrefixExpression operator operand w =
     (if operator = ''!'' then Inr (evalBangOperatorExpression operand, w)
      else if operator = ''-'' then evalDashOperatorExpression operand w
      else (case operand of
              None \<Rightarrow> Inl NilDereference
            | Some ob \<Rightarrow> newError ERR_PREFIX_UNKNOWN [S operator, T (Type ob)] w))"

text \<open>
  Go's \<^verbatim>\<open>/\<close> on \<^verbatim>\<open>int64\<close> panics when the divisor is zero and truncates towards zero
  otherwise; \<^verbatim>\<open>+\<close>, \<^verbatim>\<open>-\<close> and \<^verbatim>\<open>*\<close> wrap around; \<^verbatim>\<open><\<close> and \<^verbatim>\<open>>\<close> compare the signed values.
\<close>

definition int64_quo :: "int64 \<Rightarrow> int64 \<Rightarrow> int64" where
  "int64_quo a b = word_of_int (sint a sdiv sint b)"

definition evalIntegerInfixExpression :: "string \<Rightarrow> obj \<Rightarrow> obj \<Rightarrow> world \<Rightarrow> val result" where
  "evalIntegerInfixExpression operator left right w =
     (case (Integer_Value left, Integer_Value right) of
        (Some leftInt, Some rightInt) \<Rightarrow>
          (let new = (\<lambda>newInt. let (r, w') = alloc (Integer newInt) w in Inr (Some r, w')) in
           if operator = ''+'' then new (leftInt + rightInt)
           else if operator = ''-'' then new (leftInt - rightInt)
           else if operator = ''*'' then new (leftInt * rightInt)
           else if operator = ''/'' then
             (if rightInt = 0 then Inl DivideByZero else new (int64_quo leftInt rightInt))
           else if operator = ''=='' then
             Inr (Some (nativeBooleanToObject (leftInt = rightInt)), w)
           else if operator = ''!='' then
             Inr (Some (nativeBooleanToObject (leftInt \<noteq> rightInt)), w)
           else if operator = ''<'' then
             Inr (Some (nativeBooleanToObject (leftInt <s rightInt)), w)
           else if operator = ''>'' then
             Inr (Some (nativeBooleanToObject (rightInt <s leftInt)), w)
           else newError ERR_INFIX_UNKNOWN [T (Type left), S operator, T (Type right)] w)
      | _ \<Rightarrow> Inl TypeAssertion)"

text \<open>
  In \<^verbatim>\<open>evalInfixExpression\<close> the first case calls \<^verbatim>\<open>left.Type()\<close> and then
  \<^verbatim>\<open>right.Type()\<close>: a \<^verbatim>\<open>nil\<close> operand is a nil dereference.
\<close>

fun evalInfixExpression :: "string \<Rightarrow> val \<Rightarrow> val \<Rightarrow> world \<Rightarrow> val result" where
  "evalInfixExpression operator None right w = Inl NilDereference"
| "evalInfixExpression operator (Some left) None w = Inl NilDereference"
| "evalInfixExpression operator (Some left) (Some right) w =
     (if Type left \<noteq> Type right then
        newError ERR_INFIX_MISMATCH [T (Type left), S operator, T (Type right)] w
      else if Type left = O_INTEGER \<and> Type right = O_INTEGER then
        evalIntegerInfixExpression operator left right w
      else if operator = ''=='' then
        Inr (Some (nativeBooleanToObject (same_obj left right)), w)
      else if operator = ''!='' then
        Inr (Some (nativeBooleanToObject (\<not> same_obj left right)), w)
      else newError ERR_INFIX_UNKNOWN [T (Type left), S operator, T (Type right)] w)"

definition evalIdentifier :: "string \<Rightarrow> world \<Rightarrow> val result" where
  "evalIdentifier name w =
     (let (v, ok) = Get (env w) name in
      if \<not> ok then newError ERR_IDENTIFIER_UNKNOWN [S name] w else Inr (v, w))"

text \<open>
  \<^verbatim>\<open>Eval\<close> and the functions it is mutually recursive with. \<open>evalProgram_loop\<close> and
  \<open>evalBlockStatement_loop\<close> are the \<^verbatim>\<open>for\<close> loop of \<^verbatim>\<open>evalProgram\<close> and of \<^verbatim>\<open>evalBlockStatement\<close>;
  they carry the local variable \<^verbatim>\<open>result\<close>, which both functions start as \<^verbatim>\<open>nil\<close>.
  A \<^verbatim>\<open>LetStatement\<close> that has bound its name leaves the \<^verbatim>\<open>switch\<close> and reaches the final
  \<^verbatim>\<open>return nil\<close>, as every node without a case does.
\<close>

function (sequential) Eval :: "node \<Rightarrow> world \<Rightarrow> val result"
and evalProgram_loop :: "val \<Rightarrow> node list \<Rightarrow> world \<Rightarrow> val result"
and evalBlockStatement_loop :: "val \<Rightarrow> node list \<Rightarrow> world \<Rightarrow> val result"
and evalIfExpression :: "node \<Rightarrow> node \<Rightarrow> node \<Rightarrow> world \<Rightarrow> val result"
where
  "Eval (Program statements) w = evalProgram_loop None statements w"
| "Eval (BlockStatement statements) w = evalBlockStatement_loop None statements w"
| "Eval (ExpressionStatement expression) w = Eval expression w"
| "Eval (ReturnStatement returnValue) w =
     (case Eval returnValue w of
        Inl p \<Rightarrow> Inl p
      | Inr (v, w1) \<Rightarrow>
          if isError v then Inr (v, w1)
          else (let (r, w2) = alloc (ReturnValue v) w1 in Inr (Some r, w2)))"
| "Eval (LetStatement name value) w =
     (case Eval value w of
        Inl p \<Rightarrow> Inl p
      | Inr (v, w1) \<Rightarrow>
          if isError v then Inr (v, w1)
          else Inr (None, w1\<lparr>env := Set (env w1) name v\<rparr>))"
| "Eval (BooleanLiteral b) w = Inr (Some (nativeBooleanToObject b), w)"
| "Eval (IntegerLiteral i) w = (let (r, w1) = alloc (Integer i) w in Inr (Some r, w1))"
| "Eval (FunctionLiteral params body) w =
     (let (r, w1) = alloc (Function params body) w in Inr (Some r, w1))"
| "Eval (PrefixExpression operator right) w =
     (case Eval right w of
        Inl p \<Rightarrow> Inl p
      | Inr (operand, w1) \<Rightarrow>
          if isError operand then Inr (operand, w1)
          else evalPrefixExpression operator operand w1)"
| "Eval (InfixExpression operator left right) w =
     (case Eval left w of
        Inl p \<Rightarrow> Inl p
      | Inr (l, w1) \<Rightarrow>
          if isError l then Inr (l, w1)
          else (case Eval right w1 of
                  Inl p \<Rightarrow> Inl p
                | Inr (r, w2) \<Rightarrow>
                    if isError r then Inr (r, w2)
                    else evalInfixExpression operator l r w2))"
| "Eval (IfExpression condition thn otherwise) w = evalIfExpression condition thn otherwise w"
| "Eval (Identifier name) w = evalIdentifier name w"
| "Eval _ w = Inr (None, w)"
| "evalProgram_loop result [] w = Inr (result, w)"
| "evalProgram_loop result (stmt # rest) w =
     (case Eval stmt w of
        Inl p \<Rightarrow> Inl p
      | Inr (r, w1) \<Rightarrow>
          (case r of
             Some (Alloc a (ReturnValue v)) \<Rightarrow> Inr (v, w1)
           | Some (Alloc a (Error f as)) \<Rightarrow> Inr (r, w1)
           | _ \<Rightarrow> evalProgram_loop r rest w1))"
| "evalBlockStatement_loop result [] w = Inr (result, w)"
| "evalBlockStatement_loop result (stmt # rest) w =
     (case Eval stmt w of
        Inl p \<Rightarrow> Inl p
      | Inr (r, w1) \<Rightarrow>
          (case r of
             None \<Rightarrow> evalBlockStatement_loop r rest w1
           | Some ob \<Rightarrow>
               if Type ob = O_RETURN_VALUE \<or> isError r then Inr (r, w1)
               else evalBlockStatement_loop r rest w1))"
| "evalIfExpression condition thn otherwise w =
     (case Eval condition w of
        Inl p \<Rightarrow> Inl p
      | Inr (c, w1) \<Rightarrow>
          if isError c then Inr (c, w1)
          else if isTruthy c then Eval thn w1
          else if otherwise \<noteq> NilNode then Eval otherwise w1
          else Inr (Some NULL, w1))"
  by pat_completeness auto

termination
  by (relation "measure (case_sum
        (case_sum (\<lambda>(n, w). 2 * size n) (\<lambda>(r, ss, w). 2 * size_list size ss))
        (case_sum (\<lambda>(r, ss, w). 2 * size_list size ss)
                  (\<lambda>(c, t, e, w). 2 * (size c + size t + size e) + 1)))") auto

text \<open>
  For the properties of \<^verbatim>\<open>evalProgram\<close> and \<^verbatim>\<open>evalBlockStatement\<close>: \<open>stops v\<close> says that \<open>v\<close> is a
  \<^verbatim>\<open>ReturnValue\<close> or an \<^verbatim>\<open>Error\<close> object, and \<open>run_through result statements w\<close> evaluates
  the statements in order, each in the state the one before left, and gives the last
  value and the final state when every call returned and no value stops the loop.
\<close>

definition stops :: "val \<Rightarrow> bool" where
  "stops v = (case v of None \<Rightarrow> False | Some ob \<Rightarrow> Type ob = O_RETURN_VALUE \<or> Type ob = O_ERROR)"

fun run_through :: "val \<Rightarrow> node list \<Rightarrow> world \<Rightarrow> (val \<times> world) option" where
  "run_through result [] w = Some (result, w)"
| "run_through result (stmt # rest) w =
     (case Eval stmt w of
        Inl p \<Rightarrow> None
      | Inr (r, w1) \<Rightarrow> if stops r then None else run_through r rest w1)"

text \<open>
  For the invariant of the boolean objects: \<open>singleton_Booleans v\<close> says that \<open>v\<close> is not
  a \<^verbatim>\<open>Boolean\<close> object created by a composite literal, nor a \<^verbatim>\<open>ReturnValue\<close> that wraps
  one; \<open>singleton_Booleans_env\<close> says so of every value bound in an environment and in
  the environments that enclose it. \<open>Boolean_Value\<close> reads the field \<^verbatim>\<open>Value\<close> of a boolean
  object. \<open>good\<close> is the invariant on the outcome of a call.
\<close>

fun singleton_Booleans :: "val \<Rightarrow> bool" where
  "singleton_Booleans None = True"
| "singleton_Booleans (Some (Alloc a (Boolean b))) = False"
| "singleton_Booleans (Some (Alloc a (ReturnValue v))) = singleton_Booleans v"
| "singleton_Booleans (Some _) = True"

fun singleton_Booleans_env :: "Environment \<Rightarrow> bool" where
  "singleton_Booleans_env (Environment st out) =
     ((\<forall>v \<in> ran st. singleton_Booleans v) \<and>
      (case out of None \<Rightarrow> True | Some e \<Rightarrow> singleton_Booleans_env e))"

fun Boolean_Value :: "obj \<Rightarrow> bool option" where
  "Boolean_Value TRUE = Some True"
| "Boolean_Value FALSE = Some False"
| "Boolean_Value (Alloc a (Boolean b)) = Some b"
| "Boolean_Value _ = None"

definition good :: "val result \<Rightarrow> bool" where
  "good res = (case res of
       Inl p \<Rightarrow> True
     | Inr (r, w) \<Rightarrow> singleton_Booleans r \<and> singleton_Booleans_env (env w))"

section \<open>Parser\<close>

text \<open>
  The token package is not among the sources. \<open>TokenType\<close> has the kinds the parser
  and its test name (\<^verbatim>\<open>token.TRUE\<close> and \<^verbatim>\<open>token.FALSE\<close> of the test apart) and
  \<open>OtherType k\<close> for every other kind, \<open>k\<close> its name.
\<close>

datatype TokenType = EOF | LET | IDENTIFIER | ASSIGN | SEMICOLON | INTEGER | OtherType string

datatype Token = Token (Type_token: TokenType) (Literal: string)

text \<open>
  A line that \<^verbatim>\<open>parseErrorLog.Printf\<close> writes to \<^verbatim>\<open>os.Stderr\<close>:
  \<^verbatim>\<open>"unexpected token of type %q: %q, expected token of type %q"\<close> with the type and the
  literal of the token found and the type expected, kept as the three arguments.
\<close>

datatype diagnostic = UnexpectedToken TokenType string TokenType

text \<open>
  The \<^verbatim>\<open>Parser\<close> struct has the fields \<^verbatim>\<open>lx\<close>, \<^verbatim>\<open>currentToken\<close> and \<^verbatim>\<open>peekToken\<close>. The
  state of the model has one more component, \<open>parseErrorLog\<close>: the lines the package's
  logger of that name has written to standard error so far.
\<close>

record Parser =
  lx :: "Token list"
  currentToken :: Token
  peekToken :: Token
  parseErrorLog :: "diagnostic list"

text \<open>
  Modelled from the spec: \<^verbatim>\<open>lexer.Lexer\<close> and its \<^verbatim>\<open>NextToken\<close>, which are not among the
  sources. The lexer gives an ordered sequence of tokens terminated by an end-of-input
  marker: it is the list of the tokens before the marker, and \<^verbatim>\<open>NextToken\<close> gives the
  marker once the list is used up.
\<close>

fun NextToken :: "Token list \<Rightarrow> Token \<times> Token list" where
  "NextToken [] = (Token EOF [], [])"
| "NextToken (t # ts) = (t, ts)"

definition nextToken :: "Parser \<Rightarrow> Parser" where
  "nextToken p =
     (let (t, l) = NextToken (lx p) in p\<lparr>lx := l, currentToken := peekToken p, peekToken := t\<rparr>)"

definition New :: "Token list \<Rightarrow> Parser" where
  "New l =
     nextToken (nextToken \<lparr>lx = l, currentToken = Token (OtherType []) [],
                            peekToken = Token (OtherType []) [], parseErrorLog = []\<rparr>)"

definition expectPeek :: "TokenType \<Rightarrow> Parser \<Rightarrow> bool \<times> Parser" where
  "expectPeek t p =
     (if Type_token (peekToken p) = t then (True, nextToken p)
      else (False, p\<lparr>parseErrorLog := parseErrorLog p @
              [UnexpectedToken (Type_token (peekToken p)) (Literal (peekToken p)) t]\<rparr>))"

text \<open>
  Every loop of the parser ends because each \<^verbatim>\<open>nextToken\<close> at a current token other than
  the end marker uses up input.
\<close>

definition remaining :: "Parser \<Rightarrow> nat" where
  "remaining p =
     length (lx p) + (if Type_token (peekToken p) = EOF then 0 else 1)
                   + (if Type_token (currentToken p) = EOF then 0 else 1)"

lemma remaining_nextToken_le: "remaining (nextToken p) \<le> remaining p"
  by (cases "lx p") (auto simp: remaining_def nextToken_def)

lemma remaining_nextToken_less:
  "Type_token (currentToken p) \<noteq> EOF \<Longrightarrow> remaining (nextToken p) < remaining p"
  by (cases "lx p") (auto simp: remaining_def nextToken_def)

text \<open>
  The loop of \<^verbatim>\<open>parseLetStatement\<close> that skips to the semicolon; it reports whether it
  found one (\<^verbatim>\<open>return nil\<close> at the end of the input otherwise).
\<close>

function parseLetStatement_loop :: "Parser \<Rightarrow> bool \<times> Parser" where
  "parseLetStatement_loop p =
     (if Type_token (currentToken p) \<noteq> SEMICOLON then
        if Type_token (currentToken p) = EOF then (False, p)
        else parseLetStatement_loop (nextToken p)
      else (True, p))"
  by pat_completeness auto

termination
  by (relation "measure remaining") (auto simp: remaining_nextToken_less)

declare parseLetStatement_loop.simps [simp del]

definition parseLetStatement :: "Parser \<Rightarrow> node option \<times> Parser" where
  "parseLetStatement p =
     (let (ok, p1) = expectPeek IDENTIFIER p in
      if \<not> ok then (None, p1)
      else
        let name = Literal (currentToken p1);
            (ok, p2) = expectPeek ASSIGN p1 in
        if \<not> ok then (None, p2)
        else
          let (found, p3) = parseLetStatement_loop p2 in
          if \<not> found then (None, p3) else (Some (LetStatement name NilNode), p3))"

definition parseStatement :: "Parser \<Rightarrow> node option \<times> Parser" where
  "parseStatement p =
     (if Type_token (currentToken p) = LET then
        (case parseLetStatement p of
           (Some s, p1) \<Rightarrow> (Some s, p1)
         | (None, p1) \<Rightarrow> (None, p1))
      else (None, p))"

lemma remaining_loop: "remaining (snd (parseLetStatement_loop p)) \<le> remaining p"
proof (induction p rule: parseLetStatement_loop.induct)
  case (1 p)
  show ?case
  proof (cases "Type_token (currentToken p) \<noteq> SEMICOLON \<and> Type_token (currentToken p) \<noteq> EOF")
    case True
    then have "parseLetStatement_loop p = parseLetStatement_loop (nextToken p)"
      by (subst parseLetStatement_loop.simps) simp
    moreover have "remaining (snd (parseLetStatement_loop (nextToken p))) \<le> remaining (nextToken p)"
      using True "1.IH" by simp
    ultimately show ?thesis
      using remaining_nextToken_le [of p] by simp
  next
    case False
    then show ?thesis
      by (subst parseLetStatement_loop.simps) auto
  qed
qed

lemma remaining_expectPeek: "remaining (snd (expectPeek t p)) \<le> remaining p"
  by (simp add: expectPeek_def remaining_nextToken_le) (simp add: remaining_def)

lemma expectPeek_False: "\<not> fst (expectPeek t p) \<Longrightarrow>
    currentToken (snd (expectPeek t p)) = currentToken p \<and> remaining (snd (expectPeek t p)) = remaining p"
  by (auto simp: expectPeek_def remaining_def)

lemma expectPeek_True: "fst (expectPeek t p) \<Longrightarrow> snd (expectPeek t p) = nextToken p"
  by (auto simp: expectPeek_def split: if_splits)

lemma remaining_parseLetStatement:
  assumes "Type_token (currentToken p) \<noteq> EOF"
  shows "remaining (nextToken (snd (parseLetStatement p))) < remaining p"
proof (cases "fst (expectPeek IDENTIFIER p)")
  case False
  obtain ok p1 where e: "expectPeek IDENTIFIER p = (ok, p1)"
    by (cases "expectPeek IDENTIFIER p")
  with False have "snd (parseLetStatement p) = snd (expectPeek IDENTIFIER p)"
    by (simp add: parseLetStatement_def)
  with False assms show ?thesis
    using expectPeek_False [of IDENTIFIER p]
      remaining_nextToken_less [of "snd (expectPeek IDENTIFIER p)"] by simp
next
  case True
  define p1 where "p1 = nextToken p"
  have p1: "expectPeek IDENTIFIER p = (True, p1)"
    using True expectPeek_True [of IDENTIFIER p] by (simp add: p1_def prod_eq_iff)
  have less: "remaining p1 < remaining p"
    using assms by (simp add: p1_def remaining_nextToken_less)
  define p2 where "p2 = snd (expectPeek ASSIGN p1)"
  have le2: "remaining p2 \<le> remaining p1"
    by (simp add: p2_def remaining_expectPeek)
  obtain ok2 where e2: "expectPeek ASSIGN p1 = (ok2, p2)"
    by (cases "expectPeek ASSIGN p1") (simp add: p2_def)
  obtain found p3 where e3: "parseLetStatement_loop p2 = (found, p3)"
    by (cases "parseLetStatement_loop p2")
  have "snd (parseLetStatement p) = p2 \<or> snd (parseLetStatement p) = snd (parseLetStatement_loop p2)"
    by (simp add: parseLetStatement_def p1 e2 e3 Let_def)
  then have "remaining (snd (parseLetStatement p)) \<le> remaining p2"
    using remaining_loop [of p2] by auto
  then show ?thesis
    using le2 less remaining_nextToken_le [of "snd (parseLetStatement p)"] by linarith
qed

lemma remaining_parseStatement:
  assumes "Type_token (currentToken p) \<noteq> EOF"
  shows "remaining (nextToken (snd (parseStatement p))) < remaining p"
proof (cases "Type_token (currentToken p) = LET")
  case True
  then have "snd (parseStatement p) = snd (parseLetStatement p)"
    by (simp add: parseStatement_def split: prod.splits option.splits)
  then show ?thesis
    using assms remaining_parseLetStatement by simp
next
  case False
  then show ?thesis
    using assms by (simp add: parseStatement_def remaining_nextToken_less)
qed

function ParseProgram_loop :: "node list \<Rightarrow> Parser \<Rightarrow> node list \<times> Parser" where
  "ParseProgram_loop statements p =
     (if Type_token (currentToken p) \<noteq> EOF then
        (let (stmt, p1) = parseStatement p;
             statements1 = (case stmt of None \<Rightarrow> statements | Some s \<Rightarrow> statements @ [s])
         in ParseProgram_loop statements1 (nextToken p1))
      else (statements, p))"
  by pat_completeness auto

termination
proof (relation "measure (\<lambda>(statements, p). remaining p)", goal_cases)
  case 1
  then show ?case by simp
next
  case (2 statements p x stmt p1 statements1)
  then show ?case
    using remaining_parseStatement [of p] by (simp add: prod_eq_iff)
qed

declare ParseProgram_loop.simps [simp del]

definition ParseProgram :: "Parser \<Rightarrow> node \<times> Parser" where
  "ParseProgram p = (let (statements, p1) = ParseProgram_loop [] p in (Program statements, p1))"

section \<open>Properties of the evaluator\<close>

subsection \<open>Statement sequences\<close>

lemma Type_RETURN_VALUE: "Type ob = O_RETURN_VALUE \<longleftrightarrow> (\<exists>a v. ob = Alloc a (ReturnValue v))"
proof (cases ob)
  case (Alloc a c)
  then show ?thesis by (cases c) auto
qed auto

lemma Type_ERROR: "Type ob = O_ERROR \<longleftrightarrow> (\<exists>a f as. ob = Alloc a (Error f as))"
proof (cases ob)
  case (Alloc a c)
  then show ?thesis by (cases c) auto
qed auto

lemma evalProgram_loop_continue:
  assumes "Eval stmt w = Inr (r, w1)" and "\<not> stops r"
  shows "evalProgram_loop r0 (stmt # rest) w = evalProgram_loop r rest w1"
proof (cases r)
  case None
  with assms show ?thesis by simp
next
  case (Some ob)
  show ?thesis
  proof (cases ob)
    case (Alloc a c)
    with assms Some show ?thesis by (cases c) (simp_all add: stops_def)
  qed (use assms Some in simp_all)
qed

lemma evalBlockStatement_loop_continue:
  assumes "Eval stmt w = Inr (r, w1)" and "\<not> stops r"
  shows "evalBlockStatement_loop r0 (stmt # rest) w = evalBlockStatement_loop r rest w1"
  using assms by (cases r) (simp_all add: stops_def)

lemma evalProgram_loop_run_through:
  "run_through r0 pre w = Some (r1, w1) \<Longrightarrow>
   evalProgram_loop r0 (pre @ rest) w = evalProgram_loop r1 rest w1"
proof (induction pre arbitrary: r0 w)
  case Nil
  then show ?case by simp
next
  case (Cons stmt pre)
  from Cons.prems obtain r w' where e: "Eval stmt w = Inr (r, w')" and ns: "\<not> stops r"
    and rt: "run_through r pre w' = Some (r1, w1)"
    by (auto split: sum.splits if_splits)
  have "evalProgram_loop r0 ((stmt # pre) @ rest) w = evalProgram_loop r (pre @ rest) w'"
    using evalProgram_loop_continue [OF e ns] by simp
  with Cons.IH [OF rt] show ?case by simp
qed

lemma evalBlockStatement_loop_run_through:
  "run_through r0 pre w = Some (r1, w1) \<Longrightarrow>
   evalBlockStatement_loop r0 (pre @ rest) w = evalBlockStatement_loop r1 rest w1"
proof (induction pre arbitrary: r0 w)
  case Nil
  then show ?case by simp
next
  case (Cons stmt pre)
  from Cons.prems obtain r w' where e: "Eval stmt w = Inr (r, w')" and ns: "\<not> stops r"
    and rt: "run_through r pre w' = Some (r1, w1)"
    by (auto split: sum.splits if_splits)
  have "evalBlockStatement_loop r0 ((stmt # pre) @ rest) w = evalBlockStatement_loop r (pre @ rest) w'"
    using evalBlockStatement_loop_continue [OF e ns] by simp
  with Cons.IH [OF rt] show ?case by simp
qed

text \<open>
  C1. The statements of a program or of a block are evaluated in order, each in the state
  the one before left. When the statements \<open>pre\<close> run through and the next statement
  gives an \<^verbatim>\<open>Error\<close> or a \<^verbatim>\<open>ReturnValue\<close> object, the evaluation ends there with the state
  that statement left, whatever the remaining statements \<open>rest\<close> are: the program and the
  block both give the \<^verbatim>\<open>Error\<close> object; for a \<^verbatim>\<open>ReturnValue\<close> the program gives the
  wrapped value and the block the \<^verbatim>\<open>ReturnValue\<close> object itself.
\<close>

theorem statements_in_order_until_signal:
  assumes "run_through None pre w = Some (r0, w1)"
  shows "Eval (Program pre) w = Inr (r0, w1) \<and>
         Eval (BlockStatement pre) w = Inr (r0, w1) \<and>
         (Eval stmt w1 = Inr (Some ob, w2) \<longrightarrow>
            (Type ob = O_ERROR \<longrightarrow>
               Eval (Program (pre @ stmt # rest)) w = Inr (Some ob, w2) \<and>
               Eval (BlockStatement (pre @ stmt # rest)) w = Inr (Some ob, w2)) \<and>
            (ob = Alloc a (ReturnValue v) \<longrightarrow>
               Eval (Program (pre @ stmt # rest)) w = Inr (v, w2) \<and>
               Eval (BlockStatement (pre @ stmt # rest)) w = Inr (Some ob, w2)))"
proof (intro conjI impI)
  show "Eval (Program pre) w = Inr (r0, w1)"
    using evalProgram_loop_run_through [OF assms, of "[]"] by simp
  show "Eval (BlockStatement pre) w = Inr (r0, w1)"
    using evalBlockStatement_loop_run_through [OF assms, of "[]"] by simp
next
  assume e: "Eval stmt w1 = Inr (Some ob, w2)" and t: "Type ob = O_ERROR"
  from t obtain b f as where ob: "ob = Alloc b (Error f as)"
    by (auto simp: Type_ERROR)
  show "Eval (Program (pre @ stmt # rest)) w = Inr (Some ob, w2)"
    using evalProgram_loop_run_through [OF assms, of "stmt # rest"] e ob by simp
  show "Eval (BlockStatement (pre @ stmt # rest)) w = Inr (Some ob, w2)"
    using evalBlockStatement_loop_run_through [OF assms, of "stmt # rest"] e ob by simp
next
  assume e: "Eval stmt w1 = Inr (Some ob, w2)" and ob: "ob = Alloc a (ReturnValue v)"
  show "Eval (Program (pre @ stmt # rest)) w = Inr (v, w2)"
    using evalProgram_loop_run_through [OF assms, of "stmt # rest"] e ob by simp
  show "Eval (BlockStatement (pre @ stmt # rest)) w = Inr (Some ob, w2)"
    using evalBlockStatement_loop_run_through [OF assms, of "stmt # rest"] e ob by simp
qed


theorem statements_in_order_until_signal_witness:
  "run_through None [ExpressionStatement (IntegerLiteral 1)]
       \<lparr>env = Environment Map.empty None, next_addr = 0\<rparr> =
     Some (Some (Alloc 0 (Integer 1)), \<lparr>env = Environment Map.empty None, next_addr = 1\<rparr>) \<and>
   Eval (Program [ExpressionStatement (IntegerLiteral 1), ReturnStatement (IntegerLiteral 5),
                  ExpressionStatement (IntegerLiteral 9)])
       \<lparr>env = Environment Map.empty None, next_addr = 0\<rparr> =
     Inr (Some (Alloc 1 (Integer 5)), \<lparr>env = Environment Map.empty None, next_addr = 3\<rparr>) \<and>
   Eval (BlockStatement [ExpressionStatement (IntegerLiteral 1), ReturnStatement (IntegerLiteral 5),
                         ExpressionStatement (IntegerLiteral 9)])
       \<lparr>env = Environment Map.empty None, next_addr = 0\<rparr> =
     Inr (Some (Alloc 2 (ReturnValue (Some (Alloc 1 (Integer 5))))),
          \<lparr>env = Environment Map.empty None, next_addr = 3\<rparr>) \<and>
   Eval (Program [ExpressionStatement (IntegerLiteral 1), ExpressionStatement (Identifier ''foobar''),
                  ExpressionStatement (IntegerLiteral 9)])
       \<lparr>env = Environment Map.empty None, next_addr = 0\<rparr> =
     Inr (Some (Alloc 1 (Error ''unknown identifier: %s'' [S ''foobar''])),
          \<lparr>env = Environment Map.empty None, next_addr = 2\<rparr>) \<and>
   Eval (BlockStatement [ExpressionStatement (IntegerLiteral 1),
                         ExpressionStatement (Identifier ''foobar''),
                         ExpressionStatement (IntegerLiteral 9)])
       \<lparr>env = Environment Map.empty None, next_addr = 0\<rparr> =
     Inr (Some (Alloc 1 (Error ''unknown identifier: %s'' [S ''foobar''])),
          \<lparr>env = Environment Map.empty None, next_addr = 2\<rparr>)"
proof -
  let ?w0 = "\<lparr>env = Environment Map.empty None, next_addr = 0\<rparr>"
  let ?w1 = "\<lparr>env = Environment Map.empty None, next_addr = 1\<rparr>"
  have pre: "run_through None [ExpressionStatement (IntegerLiteral 1)] ?w0 =
      Some (Some (Alloc 0 (Integer 1)), ?w1)"
    by (simp add: alloc_def stops_def)
  have ret: "Eval (ReturnStatement (IntegerLiteral 5)) ?w1 =
      Inr (Some (Alloc 2 (ReturnValue (Some (Alloc 1 (Integer 5))))),
           \<lparr>env = Environment Map.empty None, next_addr = 3\<rparr>)"
    by (simp add: alloc_def)
  have err: "Eval (ExpressionStatement (Identifier ''foobar'')) ?w1 =
      Inr (Some (Alloc 1 (Error ''unknown identifier: %s'' [S ''foobar''])),
           \<lparr>env = Environment Map.empty None, next_addr = 2\<rparr>)"
    by (simp add: alloc_def evalIdentifier_def newError_def ERR_IDENTIFIER_UNKNOWN_def)
  show ?thesis
    using pre
      statements_in_order_until_signal [OF pre, where stmt = "ReturnStatement (IntegerLiteral 5)"
        and ob = "Alloc 2 (ReturnValue (Some (Alloc 1 (Integer 5))))"
        and a = 2 and v = "Some (Alloc 1 (Integer 5))"
        and rest = "[ExpressionStatement (IntegerLiteral 9)]"
        and ?w2.0 = "\<lparr>env = Environment Map.empty None, next_addr = 3\<rparr>"]
      statements_in_order_until_signal [OF pre,
        where stmt = "ExpressionStatement (Identifier ''foobar'')"
        and ob = "Alloc 1 (Error ''unknown identifier: %s'' [S ''foobar''])"
        and rest = "[ExpressionStatement (IntegerLiteral 9)]"
        and ?w2.0 = "\<lparr>env = Environment Map.empty None, next_addr = 2\<rparr>"]
    by (simp only: ret err) simp
qed

subsection \<open>Operators\<close>

text \<open>
  C2, as amended. When the two operands of an infix expression evaluate to objects (not
  to \<^verbatim>\<open>nil\<close>) that are not errors, the result follows this order: the types differ, a
  type-mismatch \<^verbatim>\<open>Error\<close> with the two types and the operator; both are integers, the
  integer rule; the operator is \<^verbatim>\<open>==\<close> or \<^verbatim>\<open>!=\<close>, the boolean object of the identity
  comparison; otherwise an unknown-operator \<^verbatim>\<open>Error\<close>. The second part spells the integer
  rule out for the integers \<open>x\<close> and \<open>y\<close>: \<^verbatim>\<open>+\<close>, \<^verbatim>\<open>-\<close>, \<^verbatim>\<open>*\<close> and, for a divisor other than zero,
  \<^verbatim>\<open>/\<close> give a new integer object (wrapping, the quotient truncated towards zero);
  \<^verbatim>\<open>==\<close>, \<^verbatim>\<open>!=\<close>, \<^verbatim>\<open><\<close> and \<^verbatim>\<open>>\<close> give the boolean object of the comparison of the signed
  values; every other operator gives an unknown-operator \<^verbatim>\<open>Error\<close>.
\<close>

theorem infix_dispatch_order:
  assumes "Eval left w = Inr (Some l, w1)" and "\<not> isError (Some l)"
    and "Eval right w1 = Inr (Some r, w2)" and "\<not> isError (Some r)"
  shows "Eval (InfixExpression operator left right) w =
     (if Type l \<noteq> Type r then
        Inr (Some (Alloc (next_addr w2)
                     (Error ''type mismatch: %s %s %s'' [T (Type l), S operator, T (Type r)])),
             w2\<lparr>next_addr := Suc (next_addr w2)\<rparr>)
      else if Type l = O_INTEGER then evalIntegerInfixExpression operator l r w2
      else if operator = ''=='' then Inr (Some (if same_obj l r then TRUE else FALSE), w2)
      else if operator = ''!='' then Inr (Some (if same_obj l r then FALSE else TRUE), w2)
      else
        Inr (Some (Alloc (next_addr w2)
                     (Error ''unknown operator: %s %s %s'' [T (Type l), S operator, T (Type l)])),
             w2\<lparr>next_addr := Suc (next_addr w2)\<rparr>)) \<and>
   (l = Alloc a (Integer x) \<and> r = Alloc b (Integer y) \<and> \<not> (operator = ''/'' \<and> y = 0) \<longrightarrow>
      Eval (InfixExpression operator left right) w =
        (if operator = ''+'' then
           Inr (Some (Alloc (next_addr w2) (Integer (x + y))),
                w2\<lparr>next_addr := Suc (next_addr w2)\<rparr>)
         else if operator = ''-'' then
           Inr (Some (Alloc (next_addr w2) (Integer (x - y))),
                w2\<lparr>next_addr := Suc (next_addr w2)\<rparr>)
         else if operator = ''*'' then
           Inr (Some (Alloc (next_addr w2) (Integer (x * y))),
                w2\<lparr>next_addr := Suc (next_addr w2)\<rparr>)
         else if operator = ''/'' then
           Inr (Some (Alloc (next_addr w2) (Integer (word_of_int (sint x sdiv sint y)))),
                w2\<lparr>next_addr := Suc (next_addr w2)\<rparr>)
         else if operator = ''=='' then Inr (Some (if x = y then TRUE else FALSE), w2)
         else if operator = ''!='' then Inr (Some (if x = y then FALSE else TRUE), w2)
         else if operator = ''<'' then Inr (Some (if sint x < sint y then TRUE else FALSE), w2)
         else if operator = ''>'' then Inr (Some (if sint y < sint x then TRUE else FALSE), w2)
         else
           Inr (Some (Alloc (next_addr w2)
                        (Error ''unknown operator: %s %s %s''
                           [T O_INTEGER, S operator, T O_INTEGER])),
                w2\<lparr>next_addr := Suc (next_addr w2)\<rparr>)))"
proof (intro conjI impI)
  show "Eval (InfixExpression operator left right) w =
     (if Type l \<noteq> Type r then
        Inr (Some (Alloc (next_addr w2)
                     (Error ''type mismatch: %s %s %s'' [T (Type l), S operator, T (Type r)])),
             w2\<lparr>next_addr := Suc (next_addr w2)\<rparr>)
      else if Type l = O_INTEGER then evalIntegerInfixExpression operator l r w2
      else if operator = ''=='' then Inr (Some (if same_obj l r then TRUE else FALSE), w2)
      else if operator = ''!='' then Inr (Some (if same_obj l r then FALSE else TRUE), w2)
      else
        Inr (Some (Alloc (next_addr w2)
                     (Error ''unknown operator: %s %s %s'' [T (Type l), S operator, T (Type l)])),
             w2\<lparr>next_addr := Suc (next_addr w2)\<rparr>))"
    using assms
    by (simp add: newError_def alloc_def ERR_INFIX_MISMATCH_def ERR_INFIX_UNKNOWN_def
        nativeBooleanToObject_def)
next
  assume i: "l = Alloc a (Integer x) \<and> r = Alloc b (Integer y) \<and> \<not> (operator = ''/'' \<and> y = 0)"
  have "Eval (InfixExpression operator left right) w = evalIntegerInfixExpression operator l r w2"
    using assms i by simp
  with i show "Eval (InfixExpression operator left right) w =
        (if operator = ''+'' then
           Inr (Some (Alloc (next_addr w2) (Integer (x + y))),
                w2\<lparr>next_addr := Suc (next_addr w2)\<rparr>)
         else if operator = ''-'' then
           Inr (Some (Alloc (next_addr w2) (Integer (x - y))),
                w2\<lparr>next_addr := Suc (next_addr w2)\<rparr>)
         else if operator = ''*'' then
           Inr (Some (Alloc (next_addr w2) (Integer (x * y))),
                w2\<lparr>next_addr := Suc (next_addr w2)\<rparr>)
         else if operator = ''/'' then
           Inr (Some (Alloc (next_addr w2) (Integer (word_of_int (sint x sdiv sint y)))),
                w2\<lparr>next_addr := Suc (next_addr w2)\<rparr>)
         else if operator = ''=='' then Inr (Some (if x = y then TRUE else FALSE), w2)
         else if operator = ''!='' then Inr (Some (if x = y then FALSE else TRUE), w2)
         else if operator = ''<'' then Inr (Some (if sint x < sint y then TRUE else FALSE), w2)
         else if operator = ''>'' then Inr (Some (if sint y < sint x then TRUE else FALSE), w2)
         else
           Inr (Some (Alloc (next_addr w2)
                        (Error ''unknown operator: %s %s %s''
                           [T O_INTEGER, S operator, T O_INTEGER])),
                w2\<lparr>next_addr := Suc (next_addr w2)\<rparr>))"
    by (simp add: evalIntegerInfixExpression_def newError_def alloc_def ERR_INFIX_UNKNOWN_def
        nativeBooleanToObject_def int64_quo_def word_sless_alt)
qed

theorem infix_dispatch_order_witness:
  "Eval (IntegerLiteral 5) \<lparr>env = Environment Map.empty None, next_addr = 0\<rparr> =
     Inr (Some (Alloc 0 (Integer 5)), \<lparr>env = Environment Map.empty None, next_addr = 1\<rparr>) \<and>
   \<not> isError (Some (Alloc 0 (Integer 5))) \<and>
   Eval (BooleanLiteral True) \<lparr>env = Environment Map.empty None, next_addr = 1\<rparr> =
     Inr (Some TRUE, \<lparr>env = Environment Map.empty None, next_addr = 1\<rparr>) \<and>
   \<not> isError (Some TRUE) \<and>
   Eval (InfixExpression ''+'' (IntegerLiteral 5) (BooleanLiteral True))
       \<lparr>env = Environment Map.empty None, next_addr = 0\<rparr> =
     Inr (Some (Alloc 1 (Error ''type mismatch: %s %s %s'' [T O_INTEGER, S ''+'', T O_BOOLEAN])),
          \<lparr>env = Environment Map.empty None, next_addr = 2\<rparr>) \<and>
   Eval (IntegerLiteral (- 7)) \<lparr>env = Environment Map.empty None, next_addr = 0\<rparr> =
     Inr (Some (Alloc 0 (Integer (- 7))), \<lparr>env = Environment Map.empty None, next_addr = 1\<rparr>) \<and>
   \<not> isError (Some (Alloc 0 (Integer (- 7)))) \<and>
   Eval (IntegerLiteral 2) \<lparr>env = Environment Map.empty None, next_addr = 1\<rparr> =
     Inr (Some (Alloc 1 (Integer 2)), \<lparr>env = Environment Map.empty None, next_addr = 2\<rparr>) \<and>
   \<not> isError (Some (Alloc 1 (Integer 2))) \<and>
   \<not> (''/'' = ''/'' \<and> (2 :: int64) = 0) \<and>
   Eval (InfixExpression ''/'' (IntegerLiteral (- 7)) (IntegerLiteral 2))
       \<lparr>env = Environment Map.empty None, next_addr = 0\<rparr> =
     Inr (Some (Alloc 2 (Integer (- 3))), \<lparr>env = Environment Map.empty None, next_addr = 3\<rparr>)"
proof -
  let ?w0 = "\<lparr>env = Environment Map.empty None, next_addr = 0\<rparr>"
  let ?w1 = "\<lparr>env = Environment Map.empty None, next_addr = 1\<rparr>"
  let ?w2 = "\<lparr>env = Environment Map.empty None, next_addr = 2\<rparr>"
  have l: "Eval (IntegerLiteral 5) ?w0 = Inr (Some (Alloc 0 (Integer 5)), ?w1)"
    by (simp add: alloc_def)
  have r: "Eval (BooleanLiteral True) ?w1 = Inr (Some TRUE, ?w1)"
    by (simp add: nativeBooleanToObject_def)
  have nl: "\<not> isError (Some (Alloc 0 (Integer 5)))" and nr: "\<not> isError (Some TRUE)"
    by simp_all
  have l7: "Eval (IntegerLiteral (- 7)) ?w0 = Inr (Some (Alloc 0 (Integer (- 7))), ?w1)"
    by (simp add: alloc_def)
  have r2: "Eval (IntegerLiteral 2) ?w1 = Inr (Some (Alloc 1 (Integer 2)), ?w2)"
    by (simp add: alloc_def)
  have n7: "\<not> isError (Some (Alloc 0 (Integer (- 7))))" and n2: "\<not> isError (Some (Alloc 1 (Integer 2)))"
    by simp_all
  have q: "(word_of_int (sint (- 7 :: int64) sdiv sint (2 :: int64)) :: int64) = - 3"
    by (simp add: signed_divide_int_def)
  show ?thesis
    using infix_dispatch_order [OF l nl r nr, where operator = "''+''"]
      infix_dispatch_order [OF l7 n7 r2 n2, where operator = "''/''" and a = 0 and x = "- 7"
        and b = 1 and y = 2]
      l r nl nr l7 r2 n7 n2 q
    by simp
qed

text \<open>
  C2 as it is written fails: an operand can evaluate without error to \<^verbatim>\<open>nil\<close>, which has no
  type. The condition \<^verbatim>\<open>if (true) {}\<close> with its empty block evaluates to \<^verbatim>\<open>nil\<close>, and
  \<^verbatim>\<open>if (true) {} + 1\<close> panics at \<^verbatim>\<open>left.Type()\<close> instead of following one of the four
  branches.
\<close>

theorem infix_nil_operand_counterexample:
  "Eval (IfExpression (BooleanLiteral True) (BlockStatement []) NilNode)
       \<lparr>env = Environment Map.empty None, next_addr = 0\<rparr> =
     Inr (None, \<lparr>env = Environment Map.empty None, next_addr = 0\<rparr>) \<and>
   \<not> isError None \<and>
   Eval (IntegerLiteral 1) \<lparr>env = Environment Map.empty None, next_addr = 0\<rparr> =
     Inr (Some (Alloc 0 (Integer 1)), \<lparr>env = Environment Map.empty None, next_addr = 1\<rparr>) \<and>
   \<not> isError (Some (Alloc 0 (Integer 1))) \<and>
   Eval (InfixExpression ''+''
           (IfExpression (BooleanLiteral True) (BlockStatement []) NilNode) (IntegerLiteral 1))
       \<lparr>env = Environment Map.empty None, next_addr = 0\<rparr> = Inl NilDereference"
  by (simp add: alloc_def nativeBooleanToObject_def isTruthy_def FALSY_VALUES_def)

text \<open>
  C3. The claim: \<^verbatim>\<open>Eval\<close> returns a runtime value for every node and environment, also
  for an integer division whose right operand evaluates to zero, and never aborts the
  host process. The code divides without a check: the program \<^verbatim>\<open>5 / 0\<close> panics in every
  state, where every other fault of the language is an \<^verbatim>\<open>Error\<close> value.
\<close>

theorem Eval_division_by_zero_panics:
  "Eval (Program [ExpressionStatement
      (InfixExpression ''/'' (IntegerLiteral 5) (IntegerLiteral 0))]) w = Inl DivideByZero"
  by (simp add: alloc_def evalIntegerInfixExpression_def)

lemma isTruthy_iff: "isTruthy v \<longleftrightarrow> v \<noteq> Some NULL \<and> v \<noteq> Some FALSE"
proof (cases v)
  case None
  then show ?thesis by (simp add: isTruthy_def FALSY_VALUES_def)
next
  case (Some ob)
  then show ?thesis by (cases ob) (auto simp: isTruthy_def FALSY_VALUES_def)
qed

text \<open>
  C7. For every value \<open>v\<close>, \<^verbatim>\<open>!v\<close> is the \<open>FALSE\<close> object exactly when \<open>v\<close> is truthy and
  the \<open>TRUE\<close> object exactly when it is falsy; the falsy values are precisely the \<open>NULL\<close>
  object and the \<open>FALSE\<close> object, so every integer object, zero too, is truthy;
  \<^verbatim>\<open>!5\<close> evaluates to \<open>FALSE\<close> and \<^verbatim>\<open>!!5\<close> to \<open>TRUE\<close>.
\<close>

theorem bang_follows_truthiness:
  "(evalBangOperatorExpression v = Some FALSE \<longleftrightarrow> isTruthy v) \<and>
   (evalBangOperatorExpression v = Some TRUE \<longleftrightarrow> \<not> isTruthy v) \<and>
   (\<not> isTruthy v \<longleftrightarrow> v = Some NULL \<or> v = Some FALSE) \<and>
   isTruthy (Some (Alloc a (Integer i))) \<and>
   evalPrefixExpression ''!'' v w = Inr (evalBangOperatorExpression v, w) \<and>
   Eval (PrefixExpression ''!'' (IntegerLiteral 5)) w =
     Inr (Some FALSE, w\<lparr>next_addr := Suc (next_addr w)\<rparr>) \<and>
   Eval (PrefixExpression ''!'' (PrefixExpression ''!'' (IntegerLiteral 5))) w =
     Inr (Some TRUE, w\<lparr>next_addr := Suc (next_addr w)\<rparr>)"
  by (auto simp: isTruthy_iff evalBangOperatorExpression_def evalPrefixExpression_def alloc_def)

subsection \<open>The boolean objects\<close>

lemma good_Inr [simp]:
  "good (Inr (r, w)) \<longleftrightarrow> singleton_Booleans r \<and> singleton_Booleans_env (env w)"
  by (simp add: good_def)

lemma good_Inl [simp]: "good (Inl p)"
  by (simp add: good_def)

lemma singleton_Booleans_Get:
  "singleton_Booleans_env e \<Longrightarrow> singleton_Booleans (fst (Get e name))"
proof (induction e name rule: Get.induct)
  case (1 st out name)
  show ?case
  proof (cases "st name")
    case None
    with 1 show ?thesis by (cases out) auto
  next
    case (Some v)
    with "1.prems" show ?thesis by (auto simp: ran_def)
  qed
qed

lemma singleton_Booleans_Set:
  "singleton_Booleans_env e \<Longrightarrow> singleton_Booleans v \<Longrightarrow> singleton_Booleans_env (Set e name v)"
  by (cases e) (auto simp: ran_def)

lemma singleton_Booleans_native [simp]: "singleton_Booleans (Some (nativeBooleanToObject b))"
  by (simp add: nativeBooleanToObject_def)

lemma good_newError: "singleton_Booleans_env (env w) \<Longrightarrow> good (newError f a w)"
  by (simp add: newError_def alloc_def)

lemma good_evalPrefixExpression:
  assumes "singleton_Booleans_env (env w)"
  shows "good (evalPrefixExpression operator operand w)"
proof (cases operand)
  case None
  with assms show ?thesis
    by (simp add: evalPrefixExpression_def evalBangOperatorExpression_def)
next
  case (Some ob)
  with assms show ?thesis
    by (cases "Integer_Value ob")
      (simp_all add: evalPrefixExpression_def evalBangOperatorExpression_def good_newError alloc_def)
qed

lemma good_evalIntegerInfixExpression:
  "singleton_Booleans_env (env w) \<Longrightarrow> good (evalIntegerInfixExpression operator l r w)"
  by (cases "Integer_Value l"; cases "Integer_Value r")
    (simp_all add: evalIntegerInfixExpression_def good_newError alloc_def)

lemma good_evalInfixExpression:
  "singleton_Booleans_env (env w) \<Longrightarrow> good (evalInfixExpression operator l r w)"
  by (cases l; cases r) (simp_all add: good_newError good_evalIntegerInfixExpression)

lemma good_evalIdentifier:
  "singleton_Booleans_env (env w) \<Longrightarrow> good (evalIdentifier name w)"
  using singleton_Booleans_Get [of "env w" name]
  by (cases "Get (env w) name") (simp add: evalIdentifier_def good_newError)

lemma good_Eval_all:
  "singleton_Booleans_env (env w) \<longrightarrow> good (Eval n w)"
  "singleton_Booleans result \<and> singleton_Booleans_env (env w) \<longrightarrow>
     good (evalProgram_loop result statements w)"
  "singleton_Booleans result \<and> singleton_Booleans_env (env w) \<longrightarrow>
     good (evalBlockStatement_loop result statements w)"
  "singleton_Booleans_env (env w) \<longrightarrow> good (evalIfExpression condition thn otherwise w)"
proof (induction n w and result statements w and result statements w and condition thn otherwise w
    rule: Eval_evalProgram_loop_evalBlockStatement_loop_evalIfExpression.induct)
  case (4 returnValue w)
  then show ?case
    by (cases "Eval returnValue w") (auto simp: alloc_def)
next
  case (5 name bound w)
  then show ?case
    by (cases "Eval bound w") (auto simp: singleton_Booleans_Set)
next
  case (9 operator right w)
  then show ?case
    by (cases "Eval right w") (auto simp: good_evalPrefixExpression)
next
  case (10 operator left right w)
  show ?case
  proof (cases "Eval left w")
    case (Inl p)
    then show ?thesis by simp
  next
    case (Inr x)
    obtain l w1 where x: "x = (l, w1)" by (cases x)
    show ?thesis
    proof (cases "isError l")
      case True
      with 10 Inr x show ?thesis by auto
    next
      case False
      show ?thesis
      proof
        assume e: "singleton_Booleans_env (env w)"
        with "10.IH"(1) Inr x have g1: "singleton_Booleans_env (env w1)" by simp
        with "10.IH"(2) [OF Inr x [symmetric] False] have g2: "good (Eval right w1)" by simp
        show "good (Eval (InfixExpression operator left right) w)"
        proof (cases "Eval right w1")
          case (Inl p)
          with Inr x False show ?thesis by simp
        next
          case r: (Inr y)
          obtain rv w2 where y: "y = (rv, w2)" by (cases y)
          with g2 r Inr x False show ?thesis
            by (simp add: good_evalInfixExpression)
        qed
      qed
    qed
  qed
next
  case (12 name w)
  then show ?case by (simp add: good_evalIdentifier)
next
  case (15 result stmt rest w)
  show ?case
  proof (cases "Eval stmt w")
    case (Inl p)
    then show ?thesis by simp
  next
    case (Inr x)
    obtain r w1 where x: "x = (r, w1)" by (cases x)
    show ?thesis
    proof
      assume a: "singleton_Booleans result \<and> singleton_Booleans_env (env w)"
      with "15.IH"(1) Inr x have g: "singleton_Booleans r" "singleton_Booleans_env (env w1)"
        by simp_all
      show "good (evalProgram_loop result (stmt # rest) w)"
      proof (cases "stops r")
        case False
        have "evalProgram_loop result (stmt # rest) w = evalProgram_loop r rest w1"
          using evalProgram_loop_continue Inr x False by simp
        moreover have "good (evalProgram_loop r rest w1)"
        proof (cases r)
          case None
          with "15.IH"(2) [OF Inr x [symmetric]] g show ?thesis by simp
        next
          case (Some ob)
          show ?thesis
          proof (cases ob)
            case NULL
            with "15.IH"(3) [OF Inr x [symmetric] Some] g show ?thesis by simp
          next
            case TRUE
            with "15.IH"(4) [OF Inr x [symmetric] Some] g show ?thesis by simp
          next
            case FALSE
            with "15.IH"(5) [OF Inr x [symmetric] Some] g show ?thesis by simp
          next
            case (Alloc a c)
            with False Some "15.IH"(6-9) [OF Inr x [symmetric] Some Alloc] g show ?thesis
              by (cases c) (simp_all add: stops_def)
          qed
        qed
        ultimately show ?thesis by simp
      next
        case True
        then obtain ob where ob: "r = Some ob" "Type ob = O_RETURN_VALUE \<or> Type ob = O_ERROR"
          by (auto simp: stops_def split: option.splits)
        then show ?thesis
          using g Inr x by (auto simp: Type_RETURN_VALUE Type_ERROR)
      qed
    qed
  qed
next
  case (17 result stmt rest w)
  show ?case
  proof (cases "Eval stmt w")
    case (Inl p)
    then show ?thesis by simp
  next
    case (Inr x)
    obtain r w1 where x: "x = (r, w1)" by (cases x)
    show ?thesis
    proof
      assume a: "singleton_Booleans result \<and> singleton_Booleans_env (env w)"
      with "17.IH"(1) Inr x have g: "singleton_Booleans r" "singleton_Booleans_env (env w1)"
        by simp_all
      show "good (evalBlockStatement_loop result (stmt # rest) w)"
      proof (cases r)
        case None
        with "17.IH"(2) [OF Inr x [symmetric]] g Inr x show ?thesis by simp
      next
        case (Some ob)
        with "17.IH"(3) [OF Inr x [symmetric] Some] g Inr x show ?thesis by auto
      qed
    qed
  qed
next
  case (18 condition thn otherwise w)
  show ?case
  proof (cases "Eval condition w")
    case (Inl p)
    then show ?thesis by simp
  next
    case (Inr x)
    obtain c w1 where x: "x = (c, w1)" by (cases x)
    show ?thesis
    proof
      assume a: "singleton_Booleans_env (env w)"
      with "18.IH"(1) Inr x have g: "singleton_Booleans c" "singleton_Booleans_env (env w1)"
        by simp_all
      with "18.IH"(2,3) [OF Inr x [symmetric]] Inr x
      show "good (evalIfExpression condition thn otherwise w)"
        by auto
    qed
  qed
qed (simp_all add: alloc_def)


lemma singleton_Booleans_Type:
  assumes "singleton_Booleans (Some ob)" and "Type ob = O_BOOLEAN"
  shows "ob = TRUE \<or> ob = FALSE"
proof (cases ob)
  case (Alloc a c)
  with assms show ?thesis by (cases c) auto
qed (use assms in auto)

text \<open>
  C9. When no value bound in the environment is a \<^verbatim>\<open>Boolean\<close> object created by a composite
  literal, no value that \<^verbatim>\<open>Eval\<close> returns is one and none is bound afterwards: every
  \<^verbatim>\<open>Boolean\<close> the evaluator returns is the \<open>TRUE\<close> or the \<open>FALSE\<close> object. On these two
  objects the identity comparison of \<^verbatim>\<open>==\<close> and \<^verbatim>\<open>!=\<close> agrees with the equality of their
  \<^verbatim>\<open>Value\<close> fields.
\<close>

theorem evaluator_Booleans_are_singletons:
  assumes "singleton_Booleans_env (env w)" and "Eval n w = Inr (r, w')"
  shows "singleton_Booleans r \<and> singleton_Booleans_env (env w') \<and>
         (r = Some ob \<and> Type ob = O_BOOLEAN \<longrightarrow> ob = TRUE \<or> ob = FALSE) \<and>
         (x \<in> {TRUE, FALSE} \<and> y \<in> {TRUE, FALSE} \<longrightarrow>
            (same_obj x y \<longleftrightarrow> Boolean_Value x = Boolean_Value y))"
proof -
  have "good (Eval n w)"
    using assms(1) good_Eval_all(1) by blast
  with assms(2) have g: "singleton_Booleans r" "singleton_Booleans_env (env w')"
    by simp_all
  moreover have "r = Some ob \<and> Type ob = O_BOOLEAN \<longrightarrow> ob = TRUE \<or> ob = FALSE"
    using g(1) singleton_Booleans_Type by blast
  moreover have "x \<in> {TRUE, FALSE} \<and> y \<in> {TRUE, FALSE} \<longrightarrow>
      (same_obj x y \<longleftrightarrow> Boolean_Value x = Boolean_Value y)"
    by auto
  ultimately show ?thesis by blast
qed

theorem evaluator_Booleans_are_singletons_witness:
  "singleton_Booleans_env (env \<lparr>env = Environment [''b'' \<mapsto> Some TRUE] None, next_addr = 0\<rparr>) \<and>
   Eval (InfixExpression ''!='' (Identifier ''b'') (BooleanLiteral True))
       \<lparr>env = Environment [''b'' \<mapsto> Some TRUE] None, next_addr = 0\<rparr> =
     Inr (Some FALSE, \<lparr>env = Environment [''b'' \<mapsto> Some TRUE] None, next_addr = 0\<rparr>) \<and>
   Type FALSE = O_BOOLEAN \<and> singleton_Booleans (Some FALSE) \<and>
   TRUE \<in> {TRUE, FALSE} \<and> FALSE \<in> {TRUE, FALSE} \<and>
   (same_obj TRUE FALSE \<longleftrightarrow> Boolean_Value TRUE = Boolean_Value FALSE)"
proof -
  let ?w = "\<lparr>env = Environment [''b'' \<mapsto> Some TRUE] None, next_addr = 0\<rparr>"
  have e: "singleton_Booleans_env (env ?w)"
    by simp
  have ev: "Eval (InfixExpression ''!='' (Identifier ''b'') (BooleanLiteral True)) ?w =
      Inr (Some FALSE, ?w)"
    by (simp add: evalIdentifier_def nativeBooleanToObject_def)
  show ?thesis
    using e ev evaluator_Booleans_are_singletons [OF e ev, of FALSE TRUE FALSE] by simp
qed

subsection \<open>Statements without a value\<close>

text \<open>
  C10, as amended. A \<^verbatim>\<open>LetStatement\<close> whose value evaluates to something other than an
  \<^verbatim>\<open>Error\<close> binds its name and returns \<^verbatim>\<open>nil\<close>, which is not the \<open>NULL\<close> object; a node
  without a case in \<^verbatim>\<open>Eval\<close> returns \<^verbatim>\<open>nil\<close>; and a program whose last statement is such a
  \<^verbatim>\<open>LetStatement\<close> returns \<^verbatim>\<open>nil\<close> when the statements before it run through, that is when
  none of them gives a \<^verbatim>\<open>ReturnValue\<close> or an \<^verbatim>\<open>Error\<close>.
\<close>

theorem let_and_unhandled_nodes_give_nil:
  "(Eval bound w = Inr (v, w1) \<and> \<not> isError v \<longrightarrow>
      Eval (LetStatement name bound) w = Inr (None, w1\<lparr>env := Set (env w1) name v\<rparr>)) \<and>
   Eval (CallExpression callee arguments) w = Inr (None, w) \<and>
   Eval NilNode w = Inr (None, w) \<and>
   (None :: val) \<noteq> Some NULL \<and>
   (run_through None pre w = Some (r0, w2) \<and> Eval bound w2 = Inr (v, w3) \<and> \<not> isError v \<longrightarrow>
      Eval (Program (pre @ [LetStatement name bound])) w =
        Inr (None, w3\<lparr>env := Set (env w3) name v\<rparr>))"
proof (intro conjI impI)
  assume a: "run_through None pre w = Some (r0, w2) \<and> Eval bound w2 = Inr (v, w3) \<and> \<not> isError v"
  then have "evalProgram_loop None (pre @ [LetStatement name bound]) w =
      evalProgram_loop r0 [LetStatement name bound] w2"
    using evalProgram_loop_run_through by blast
  with a show "Eval (Program (pre @ [LetStatement name bound])) w =
      Inr (None, w3\<lparr>env := Set (env w3) name v\<rparr>)"
    by simp
qed auto
theorem let_and_unhandled_nodes_give_nil_witness:
  "run_through None [ExpressionStatement (IntegerLiteral 1)]
       \<lparr>env = Environment Map.empty None, next_addr = 0\<rparr> =
     Some (Some (Alloc 0 (Integer 1)), \<lparr>env = Environment Map.empty None, next_addr = 1\<rparr>) \<and>
   Eval (IntegerLiteral 5) \<lparr>env = Environment Map.empty None, next_addr = 1\<rparr> =
     Inr (Some (Alloc 1 (Integer 5)), \<lparr>env = Environment Map.empty None, next_addr = 2\<rparr>) \<and>
   \<not> isError (Some (Alloc 1 (Integer 5))) \<and>
   Eval (LetStatement ''x'' (IntegerLiteral 5))
       \<lparr>env = Environment Map.empty None, next_addr = 1\<rparr> =
     Inr (None, \<lparr>env = Environment [''x'' \<mapsto> Some (Alloc 1 (Integer 5))] None, next_addr = 2\<rparr>) \<and>
   Eval (Program [ExpressionStatement (IntegerLiteral 1), LetStatement ''x'' (IntegerLiteral 5)])
       \<lparr>env = Environment Map.empty None, next_addr = 0\<rparr> =
     Inr (None, \<lparr>env = Environment [''x'' \<mapsto> Some (Alloc 1 (Integer 5))] None, next_addr = 2\<rparr>)"
proof -
  let ?w0 = "\<lparr>env = Environment Map.empty None, next_addr = 0\<rparr>"
  let ?w1 = "\<lparr>env = Environment Map.empty None, next_addr = 1\<rparr>"
  let ?w2 = "\<lparr>env = Environment Map.empty None, next_addr = 2\<rparr>"
  have pre: "run_through None [ExpressionStatement (IntegerLiteral 1)] ?w0 =
      Some (Some (Alloc 0 (Integer 1)), ?w1)"
    by (simp add: alloc_def stops_def)
  have val: "Eval (IntegerLiteral 5) ?w1 = Inr (Some (Alloc 1 (Integer 5)), ?w2)"
    by (simp add: alloc_def)
  have ne: "\<not> isError (Some (Alloc 1 (Integer 5)))"
    by simp
  show ?thesis
    using pre val ne
      let_and_unhandled_nodes_give_nil [where w = ?w1 and ?w1.0 = ?w2 and ?w2.0 = ?w1
        and ?w3.0 = ?w2 and pre = "[]" and ?r0.0 = None
        and bound = "IntegerLiteral 5" and v = "Some (Alloc 1 (Integer 5))" and name = "''x''"]
      let_and_unhandled_nodes_give_nil [where w = ?w0 and ?w2.0 = ?w1 and ?w3.0 = ?w2
        and pre = "[ExpressionStatement (IntegerLiteral 1)]" and ?r0.0 = "Some (Alloc 0 (Integer 1))"
        and bound = "IntegerLiteral 5" and v = "Some (Alloc 1 (Integer 5))" and name = "''x''"]
    by simp
qed

text \<open>
  C10 as it is written fails: the last statement of \<^verbatim>\<open>return 5; let x = 1;\<close> is a
  \<^verbatim>\<open>LetStatement\<close>, and the program returns the integer 5.
\<close>

theorem program_ending_in_let_counterexample:
  "Eval (Program [ReturnStatement (IntegerLiteral 5), LetStatement ''x'' (IntegerLiteral 1)])
       \<lparr>env = Environment Map.empty None, next_addr = 0\<rparr> =
     Inr (Some (Alloc 0 (Integer 5)), \<lparr>env = Environment Map.empty None, next_addr = 2\<rparr>)"
  by (simp add: alloc_def)

section \<open>Properties of the parser\<close>

text \<open>
  C4. The claim: a statement \<^verbatim>\<open>let <name> = <int-or-ident>;\<close> parses to one
  \<^verbatim>\<open>LetStatement\<close> with that name whose value expression carries the literal. The
  code skips the tokens of the value up to the semicolon: \<^verbatim>\<open>let x = 5;\<close> parses to one
  \<^verbatim>\<open>LetStatement\<close> named \<^verbatim>\<open>x\<close> whose \<^verbatim>\<open>Value\<close> is \<^verbatim>\<open>nil\<close>.
\<close>

theorem parse_let_leaves_Value_nil:
  "fst (ParseProgram (New [Token LET ''let'', Token IDENTIFIER ''x'', Token ASSIGN ''='',
                           Token INTEGER ''5'', Token SEMICOLON '';''])) =
   Program [LetStatement ''x'' NilNode]"
  by (simp add: ParseProgram_def ParseProgram_loop.simps parseLetStatement_loop.simps New_def
      nextToken_def parseStatement_def parseLetStatement_def expectPeek_def)

text \<open>
  C5. The claim: the parsed tree of \<^verbatim>\<open>a + b + c\<close> renders as \<^verbatim>\<open>((a + b) + c);\<close>. The
  code has no case for a statement that does not begin with \<^verbatim>\<open>let\<close>: the tokens of
  \<^verbatim>\<open>a + b + c\<close> parse to a program without statements, which has nothing to render.
\<close>

theorem parse_infix_chain_gives_no_statement:
  "fst (ParseProgram (New [Token IDENTIFIER ''a'', Token (OtherType ''PLUS'') ''+'',
                           Token IDENTIFIER ''b'', Token (OtherType ''PLUS'') ''+'',
                           Token IDENTIFIER ''c''])) = Program []"
  by (simp add: ParseProgram_def ParseProgram_loop.simps New_def nextToken_def parseStatement_def)

text \<open>
  C6. The claim: the parser accumulates its diagnostics and hands them to the caller as a
  list after parsing, and never prints them itself. The code has no such list:
  \<^verbatim>\<open>expectPeek\<close> prints each diagnostic through \<^verbatim>\<open>parseErrorLog\<close> to standard error, and
  \<^verbatim>\<open>ParseProgram\<close> returns the program alone. Parsing \<^verbatim>\<open>let x 5;\<close> gives a program without
  statements and leaves one line on standard error, with the type and the literal of
  the token found and the type expected.
\<close>

theorem parse_error_is_printed:
  "ParseProgram (New [Token LET ''let'', Token IDENTIFIER ''x'', Token INTEGER ''5'',
       Token SEMICOLON '';'']) =
     (Program [],
      \<lparr>lx = [], currentToken = Token EOF [], peekToken = Token EOF [],
         parseErrorLog = [UnexpectedToken INTEGER ''5'' ASSIGN]\<rparr>)"
  by (simp add: ParseProgram_def ParseProgram_loop.simps New_def nextToken_def parseStatement_def
      parseLetStatement_def expectPeek_def)

text \<open>
  C8. The claim: \<^verbatim>\<open>parseStatement\<close> begins a return statement at a \<^verbatim>\<open>return\<close> token and an
  expression statement at every token other than \<^verbatim>\<open>let\<close> and \<^verbatim>\<open>return\<close>. The code returns
  \<^verbatim>\<open>nil\<close> at every token other than \<^verbatim>\<open>let\<close>: \<^verbatim>\<open>return 5;\<close> parses to a program without
  statements.
\<close>

theorem parse_return_gives_no_statement:
  "fst (ParseProgram (New [Token (OtherType ''RETURN'') ''return'', Token INTEGER ''5'',
                           Token SEMICOLON '';''])) = Program []"
  by (simp add: ParseProgram_def ParseProgram_loop.simps New_def nextToken_def parseStatement_def)

end
